theory Spec2Isabelle
  imports Complex_Main
begin

section \<open>Site frequency spectra: the data model of dadi/SFS.py\<close>

text \<open>
  The module is Python 2 code on top of numpy: line 113 concatenates
  \<^verbatim>\<open>range(1,r+1)+[0]\<close> (a list only in Python 2), \<^verbatim>\<open>import Numerics\<close> is an
  implicit relative import, and there is no \<^verbatim>\<open>from __future__ import division\<close>.
  So \<^verbatim>\<open>/\<close> between two integers (Python ints or numpy integers) is floor division,
  which is \<open>div\<close> on \<open>int\<close>; a division with a float operand is a float
  division. Floats are modelled as exact reals.

  What the functions can do other than return a finite number:
  \<^item> \<open>ValueError\<close>: the explicit \<^verbatim>\<open>raise ValueError("Only defined on a
    one-dimensional SFS.")\<close>, a failed tuple unpacking, a negative dimension given to
    \<^verbatim>\<open>numpy.zeros\<close>, operands numpy cannot broadcast;
  \<^item> \<open>ZeroDivisionError\<close>: a division by zero between Python scalars;
  \<^item> \<open>IndexError\<close>: \<^verbatim>\<open>mask.flat[0]\<close> on an array without entries;
  \<^item> \<open>KeyError\<close>: the lookup of a key that a dictionary does not hold;
  \<^item> \<open>NameError\<close>: the evaluation of a name that is not bound;
  \<^item> \<open>NonFinite\<close>: nothing is raised, but a numpy division by zero or a square root
    of a negative number has made the result \<^verbatim>\<open>inf\<close> or \<^verbatim>\<open>nan\<close>, which no
    real number stands for.
\<close>

datatype error =
  ValueError | ZeroDivisionError | IndexError | KeyError | NameError | NonFinite

text \<open>
  An SFS is a numpy array, possibly a masked one: its shape, its entries in row-major
  (\<^verbatim>\<open>flat\<close>) order and, entry by entry, whether the entry is masked. A plain
  \<^verbatim>\<open>ndarray\<close> is an SFS in which no entry is masked.
\<close>

record sfs =
  shape :: "nat list"
  vals :: "real list"
  masked :: "bool list"

definition ndim :: "sfs \<Rightarrow> nat" where
  "ndim s = length (shape s)"

definition size_sfs :: "sfs \<Rightarrow> nat" where
  "size_sfs s = prod_list (shape s)"

text \<open>The representation invariant: one value and one mask bit per entry.\<close>

definition wf_sfs :: "sfs \<Rightarrow> bool" where
  "wf_sfs s \<longleftrightarrow> length (vals s) = size_sfs s \<and> length (masked s) = size_sfs s"

text \<open>A numpy division of floats: by zero it gives \<^verbatim>\<open>inf\<close> or \<^verbatim>\<open>nan\<close>.\<close>

definition fdiv :: "real \<Rightarrow> real \<Rightarrow> error + real" where
  "fdiv a b = (if b = 0 then Inl NonFinite else Inr (a / b))"

text \<open>
  Modelled from the spec: the masked reduction of numpy.ma (a library, not among the
  sources) "excludes masked entries from sum/mean exactly as a dense reduction would if
  those entries were removed".
\<close>

definition ma_sum :: "real list \<Rightarrow> bool list \<Rightarrow> real" where
  "ma_sum xs ms = sum_list (map fst (filter (\<lambda>(x, m). \<not> m) (zip xs ms)))"

subsection \<open>mask_corners\<close>

text \<open>
  \<^verbatim>\<open>mask = numpy.ma.make_mask_none(sfs.shape)\<close> is all False;
  \<^verbatim>\<open>mask.flat[0] = mask.flat[-1] = True\<close> sets the first and the last entry and raises
  IndexError when there is none; \<^verbatim>\<open>numpy.ma.masked_array(sfs, mask=mask)\<close> keeps the
  data and, \<^verbatim>\<open>keep_mask\<close> being True by default, combines the mask of its input
  with the new one by logical or.
\<close>

definition corner_mask :: "nat \<Rightarrow> bool list" where
  "corner_mask sz = (replicate sz False)[0 := True, sz - 1 := True]"

definition mask_corners :: "sfs \<Rightarrow> error + sfs" where
  "mask_corners s =
     (if size_sfs s = 0 then Inl IndexError
      else Inr (s\<lparr>masked := map2 (\<or>) (masked s) (corner_mask (size_sfs s))\<rparr>))"

subsection \<open>The one-population statistics\<close>

text \<open>\<^verbatim>\<open>numpy.arange(a, b)\<close> on integers.\<close>

definition arange :: "int \<Rightarrow> int \<Rightarrow> int list" where
  "arange a b = [a..b - 1]"

text \<open>
  \<^verbatim>\<open>S/denom\<close> divides two numpy floats. \<open>n\<close> is a Python int, \<open>-1\<close> for an
  array without entries.
\<close>

definition Watterson_theta :: "sfs \<Rightarrow> error + real" where
  "Watterson_theta s =
     (if ndim s \<noteq> 1 then Inl ValueError
      else
        let n = int (hd (shape s)) - 1 in
        case mask_corners s of
          Inl e \<Rightarrow> Inl e
        | Inr mc \<Rightarrow>
            let S = ma_sum (vals mc) (masked mc);
                denom = sum_list (map (\<lambda>i. 1 / real_of_int i) (arange 1 n))
            in fdiv S denom)"

text \<open>
  \<^verbatim>\<open>p = 1.*numpy.arange(0,n+1)/n\<close> is a float division by the array's length minus
  one; for \<open>n = 0\<close> its one entry is \<^verbatim>\<open>0./0\<close>, a nan that reaches the result.
  In \<^verbatim>\<open>n/(n-1) * 2*numpy.ma.sum(sfs*p*(1-p))\<close> both \<open>n\<close> and \<open>n-1\<close> are Python
  ints: the quotient is evaluated first, is a floor division, and raises
  ZeroDivisionError for \<open>n = 1\<close>.
\<close>

definition pi_sfs :: "sfs \<Rightarrow> error + real" where
  "pi_sfs s =
     (if ndim s \<noteq> 1 then Inl ValueError
      else
        let n = int (hd (shape s)) - 1;
            p = map (\<lambda>i. real_of_int i / real_of_int n) (arange 0 (n + 1))
        in if n - 1 = 0 then Inl ZeroDivisionError
           else if n = 0 then Inl NonFinite
           else Inr (real_of_int (n div (n - 1)) * 2 *
                     ma_sum (map2 (\<lambda>x q. x * q * (1 - q)) (vals s) p) (masked s)))"

text \<open>
  In \<^verbatim>\<open>Tajima_D\<close>, \<open>n\<close> is a Python float (\<^verbatim>\<open>sfs.shape[0]-1.\<close>), so \<open>b1\<close> and
  \<open>b2\<close> are quotients of Python floats and raise ZeroDivisionError when their
  denominator is zero; \<open>a1\<close>, \<open>a2\<close> and everything computed from them are numpy
  floats, whose divisions and square root give inf or nan instead of raising. A nan
  returned by \<^verbatim>\<open>pi\<close> or \<^verbatim>\<open>Watterson_theta\<close> is a value: the function goes on and
  may still raise.
\<close>

definition raised :: "error + real \<Rightarrow> error option" where
  "raised r = (case r of Inl e \<Rightarrow> (if e = NonFinite then None else Some e) | Inr _ \<Rightarrow> None)"

definition Tajima_D :: "sfs \<Rightarrow> error + real" where
  "Tajima_D s =
     (if \<not> ndim s = 1 then Inl ValueError
      else
        (case mask_corners s of
          Inl e \<Rightarrow> Inl e
        | Inr mc \<Rightarrow>
            (let S = ma_sum (vals mc) (masked mc);
                 n = real (hd (shape s)) - 1;
                 pihat = pi_sfs s;
                 theta = Watterson_theta s
             in (case raised pihat of
                   Some e \<Rightarrow> Inl e
                 | None \<Rightarrow>
                    (case raised theta of
                       Some e \<Rightarrow> Inl e
                     | None \<Rightarrow>
                        (let ks = arange 1 (int (hd (shape s)) - 1);
                             a1 = sum_list (map (\<lambda>i. 1 / real_of_int i) ks);
                             a2 = sum_list (map (\<lambda>i. 1 / (real_of_int i)\<^sup>2) ks)
                         in if 3 * (n - 1) = 0 then Inl ZeroDivisionError
                            else if 9 * n * (n - 1) = 0 then Inl ZeroDivisionError
                            else
                              (let b1 = (n + 1) / (3 * (n - 1));
                                   b2 = 2 * (n\<^sup>2 + n + 3) / (9 * n * (n - 1))
                               in if a1 = 0 \<or> a1 * n = 0 \<or> a1\<^sup>2 = 0 \<or> a1\<^sup>2 + a2 = 0
                                  then Inl NonFinite
                                  else
                                    (let c1 = b1 - 1 / a1;
                                         c2 = b2 - (n + 2) / (a1 * n) + a2 / a1\<^sup>2;
                                         radicand = (c1 / a1) * S
                                                    + c2 / (a1\<^sup>2 + a2) * S * (S - 1)
                                     in if radicand < 0 then Inl NonFinite
                                        else
                                          (case pihat of
                                             Inl _ \<Rightarrow> Inl NonFinite
                                           | Inr ph \<Rightarrow>
                                              (case theta of
                                                 Inl _ \<Rightarrow> Inl NonFinite
                                               | Inr th \<Rightarrow>
                                                   fdiv (ph - th) (sqrt radicand)))))))))))"

subsection \<open>Fst\<close>

text \<open>
  \<^verbatim>\<open>numpy.indices(sfs.shape)\<close>, transposed so that its last axis holds the indices
  of the entry: the multi-indices of the array in row-major order.
\<close>

fun indices :: "nat list \<Rightarrow> nat list list" where
  "indices [] = [[]]"
| "indices (n # ns) = concat (map (\<lambda>i. map ((#) i) (indices ns)) [0..<n])"

text \<open>
  \<open>r\<close> is a Python int and \<open>ns\<close>, \<open>nsum\<close> are numpy integers, so
  \<^verbatim>\<open>numpy.sum(ns**2)/nsum\<close>, the division by \<^verbatim>\<open>(r-1)\<close> in \<open>nc\<close> and
  \<^verbatim>\<open>(r-1)/r\<close> are floor divisions (a numpy integer division by zero gives 0, as
  \<open>div\<close> does); \<open>nbar\<close> is the float \<^verbatim>\<open>numpy.mean(ns)\<close>. The arrays
  \<open>ptwiddle\<close>, \<open>pbar\<close>, \<open>s2\<close>, \<open>a\<close> and \<open>d\<close> are given by their entry at a
  multi-index. For rank 0 the quotient \<^verbatim>\<open>(r-1)/r\<close> of Python ints raises; when a
  float division has a zero denominator the result is not a finite number.
\<close>

definition Fst :: "sfs \<Rightarrow> error + real" where
  "Fst s =
     (let r = int (ndim s);
          ns = map (\<lambda>m. int m - 1) (shape s);
          nbar = real_of_int (sum_list ns) / real_of_int r;
          nsum = sum_list ns;
          nc = (nsum - sum_list (map (\<lambda>m. m\<^sup>2) ns) div nsum) div (r - 1)
      in if r = 0 then Inl ZeroDivisionError
         else if 0 \<in> set ns \<or> nsum = 0 \<or> real_of_int (r - 1) * nbar = 0 \<or> nc = 0
                 \<or> 2 * nbar - 1 = 0 then Inl NonFinite
         else
           let ptwiddle = (\<lambda>idx. map2 (\<lambda>c m. 1 * real c / real_of_int m) idx ns);
               pbar = (\<lambda>idx. sum_list (map2 (\<lambda>m pt. real_of_int m * pt) ns (ptwiddle idx))
                             / real_of_int nsum);
               s2 = (\<lambda>idx. sum_list (map2 (\<lambda>m pt. real_of_int m * (pt - pbar idx)\<^sup>2)
                                         ns (ptwiddle idx))
                           / (real_of_int (r - 1) * nbar));
               a = (\<lambda>idx. nbar / real_of_int nc *
                      (s2 idx - 1 / (2 * nbar - 1) *
                         (pbar idx * (1 - pbar idx) - real_of_int ((r - 1) div r) * s2 idx)));
               d = (\<lambda>idx. 2 * nbar / (2 * nbar - 1) *
                      (pbar idx * (1 - pbar idx) - real_of_int ((r - 1) div r) * s2 idx));
               asum = ma_sum (map2 (\<lambda>x idx. x * a idx) (vals s) (indices (shape s))) (masked s);
               dsum = ma_sum (map2 (\<lambda>x idx. x * d idx) (vals s) (indices (shape s))) (masked s)
           in fdiv asum (asum + dsum))"

text \<open>
  The formula of the specification, with every quotient an exact one:
  \<open>n_c = (nsum - sum(ns^2)/nsum)/(r-1)\<close>,
  \<open>a = (nbar/n_c)*(s2 - (pbar*(1-pbar) - (r-1)/r*s2)/(2*nbar-1))\<close>,
  \<open>d = 2*nbar/(2*nbar-1)*(pbar*(1-pbar) - (r-1)/r*s2)\<close> and
  \<open>Fst = asum/(asum+dsum)\<close>.
\<close>

definition Fst_spec :: "sfs \<Rightarrow> real" where
  "Fst_spec s =
     (let r = real (ndim s);
          ns = map (\<lambda>m. real m - 1) (shape s);
          nsum = sum_list ns;
          nbar = nsum / r;
          nc = (nsum - sum_list (map (\<lambda>m. m\<^sup>2) ns) / nsum) / (r - 1);
          ptwiddle = (\<lambda>idx. map2 (\<lambda>c m. real c / m) idx ns);
          pbar = (\<lambda>idx. sum_list (map2 (\<lambda>m pt. m * pt) ns (ptwiddle idx)) / nsum);
          s2 = (\<lambda>idx. sum_list (map2 (\<lambda>m pt. m * (pt - pbar idx)\<^sup>2) ns (ptwiddle idx))
                      / ((r - 1) * nbar));
          a = (\<lambda>idx. (nbar / nc) *
                 (s2 idx - (pbar idx * (1 - pbar idx) - (r - 1) / r * s2 idx) / (2 * nbar - 1)));
          d = (\<lambda>idx. 2 * nbar / (2 * nbar - 1) *
                 (pbar idx * (1 - pbar idx) - (r - 1) / r * s2 idx));
          asum = ma_sum (map2 (\<lambda>x idx. x * a idx) (vals s) (indices (shape s))) (masked s);
          dsum = ma_sum (map2 (\<lambda>x idx. x * d idx) (vals s) (indices (shape s))) (masked s)
      in asum / (asum + dsum))"

text \<open>
  The formula of the specification for \<^verbatim>\<open>pi\<close>: \<open>n/(n-1) * 2 * sum_i
  sfs[i]*p_i*(1-p_i)\<close> with \<open>p_i = i/n\<close> and \<open>n/(n-1)\<close> the exact ratio, over the
  entries that are not masked.
\<close>

definition pi_spec :: "sfs \<Rightarrow> real" where
  "pi_spec s =
     (let n = real (hd (shape s)) - 1
      in n / (n - 1) * 2 *
         ma_sum (map2 (\<lambda>x i. x * (real i / n) * (1 - real i / n))
                   (vals s) [0..<length (vals s)]) (masked s))"

subsection \<open>Scaling\<close>

text \<open>
  Modelled from the spec: \<^verbatim>\<open>Numerics.intersect_masks\<close> (the module Numerics is
  not among the sources) "must produce two views sharing the union of both input masks,
  each view preserving its own underlying values"; "model and data must have identical
  shape; mismatch is a fatal configuration error".
\<close>

definition intersect_masks :: "sfs \<Rightarrow> sfs \<Rightarrow> error + sfs \<times> sfs" where
  "intersect_masks m1 m2 =
     (if shape m1 \<noteq> shape m2 then Inl ValueError
      else
        let joint_mask = map2 (\<or>) (masked m1) (masked m2)
        in Inr (m1\<lparr>masked := joint_mask\<rparr>, m2\<lparr>masked := joint_mask\<rparr>))"

text \<open>
  The entries of a numpy array are all of one dtype, integers or floats. Every other
  function of the module multiplies or divides the entries by a float before it forms a
  quotient, so its result does not depend on the dtype. Here it does: line 86,
  \<^verbatim>\<open>data.sum()/model.sum()\<close>, divides the two sums as they are. When both arrays
  hold integers the sums are numpy integers and the quotient is a floor division (by
  zero it gives 0); when one of them holds floats it is a float division. The entries of
  an array of integers are whole numbers, so \<open>floor\<close> reads the sum as the integer
  it is.
\<close>

datatype dtype = Int_dtype | Float_dtype

definition optimal_sfs_scaling :: "dtype \<Rightarrow> sfs \<Rightarrow> dtype \<Rightarrow> sfs \<Rightarrow> error + real" where
  "optimal_sfs_scaling model_dtype model data_dtype data =
     (case intersect_masks model data of
        Inl e \<Rightarrow> Inl e
      | Inr (model', data') \<Rightarrow>
          let data_sum = ma_sum (vals data') (masked data');
              model_sum = ma_sum (vals model') (masked model')
          in if model_dtype = Int_dtype \<and> data_dtype = Int_dtype
             then Inr (real_of_int (\<lfloor>data_sum\<rfloor> div \<lfloor>model_sum\<rfloor>))
             else fdiv data_sum model_sum)"

text \<open>
  The quantity the specification says the scaling minimises: the sum of
  \<open>(data - c*model)^2\<close> over the entries masked in neither array.
\<close>

definition squared_error :: "sfs \<Rightarrow> sfs \<Rightarrow> real \<Rightarrow> real" where
  "squared_error model data c =
     ma_sum (map2 (\<lambda>d m. (d - c * m)\<^sup>2) (vals data) (vals model))
            (map2 (\<or>) (masked model) (masked data))"

subsection \<open>Sequencing of computations that can raise\<close>

definition bindE :: "error + 'a \<Rightarrow> ('a \<Rightarrow> error + 'b) \<Rightarrow> error + 'b" where
  "bindE m f = (case m of Inl e \<Rightarrow> Inl e | Inr x \<Rightarrow> f x)"

text \<open>A loop that fills an array entry by entry, stopping at the first raise.\<close>

fun mapE :: "('a \<Rightarrow> error + 'b) \<Rightarrow> 'a list \<Rightarrow> error + 'b list" where
  "mapE f [] = Inr []"
| "mapE f (x # xs) = bindE (f x) (\<lambda>y. bindE (mapE f xs) (\<lambda>ys. Inr (y # ys)))"

text \<open>A loop that updates a state at each iteration, stopping at the first raise.\<close>

fun foldE :: "('a \<Rightarrow> 's \<Rightarrow> error + 's) \<Rightarrow> 'a list \<Rightarrow> 's \<Rightarrow> error + 's" where
  "foldE f [] st = Inr st"
| "foldE f (x # xs) st = bindE (f x st) (foldE f xs)"

subsection \<open>randomly_resampled_2D\<close>

text \<open>
  The module neither defines nor imports \<^verbatim>\<open>lncomb\<close>: its imports bind
  \<^verbatim>\<open>numpy\<close>, \<^verbatim>\<open>nuax\<close>, \<^verbatim>\<open>comb\<close>, \<^verbatim>\<open>gammaln\<close>, \<^verbatim>\<open>Numerics\<close>,
  \<^verbatim>\<open>reverse_array\<close> and \<^verbatim>\<open>trapz\<close>, and no statement assigns the name. Evaluating
  the call \<^verbatim>\<open>lncomb(N, k)\<close> therefore raises NameError, whatever the arguments.
\<close>

definition lncomb :: "int \<Rightarrow> int \<Rightarrow> error + real" where
  "lncomb N k = Inl NameError"

text \<open>
  The first loop, over the rows and the entries of a row of an array of shape
  \<open>(a, b)\<close>: \<^verbatim>\<open>numpy.isscalar(num_snps)\<close> is False for a masked entry, which is
  then left out.
\<close>

definition pool :: "sfs \<Rightarrow> nat \<Rightarrow> nat \<Rightarrow> real list \<Rightarrow> real list" where
  "pool s a b zeros =
     fold (\<lambda>(ii, jj) sfs_combined.
             let derived_total = ii + jj
             in if masked s ! (ii * b + jj) then sfs_combined
                else sfs_combined[derived_total :=
                       sfs_combined ! derived_total + vals s ! (ii * b + jj)])
          (List.product [0..<a] [0..<b]) zeros"

text \<open>
  The body of the second loop. \<^verbatim>\<open>sfs_resamp[derived1, derived2]\<close> is an index into
  an array with \<open>b\<close> columns, kept in row-major order: a negative \<open>derived2\<close>
  counts from the end of the row, and an index out of range raises IndexError.
\<close>

definition resample_step ::
    "int \<Rightarrow> int \<Rightarrow> nat \<Rightarrow> int \<Rightarrow> int \<Rightarrow> real \<Rightarrow> real list \<Rightarrow> error + real list" where
  "resample_step n1 ntot b derived1 derived_total num_snps sfs_resamp =
     (let derived2 = derived_total - derived1;
          ancestral_total = ntot - derived_total;
          ancestral1 = n1 - derived1
      in bindE (lncomb derived_total derived1) (\<lambda>l1.
         bindE (lncomb ancestral_total ancestral1) (\<lambda>l2.
         bindE (lncomb ntot n1) (\<lambda>l3.
           let prob = exp (l1 + l2 - l3)
           in if prob > 0 then
                (if derived2 < - int b \<or> int b \<le> derived2 then Inl IndexError
                 else
                   let j = nat (if derived2 < 0 then derived2 + int b else derived2);
                       k = nat derived1 * b + j
                   in Inr (sfs_resamp[k := sfs_resamp ! k + prob * num_snps]))
              else Inr sfs_resamp))))"

text \<open>
  \<^verbatim>\<open>n1,n2 = numpy.asarray(sfs.shape)-1\<close> raises ValueError unless the shape has two
  entries, and \<^verbatim>\<open>numpy.zeros(ntot+1)\<close> raises it for a negative length. The result
  is a plain array.
\<close>

definition randomly_resampled_2D :: "sfs \<Rightarrow> error + sfs" where
  "randomly_resampled_2D s =
     (case shape s of
        [a, b] \<Rightarrow>
          let n1 = int a - 1; n2 = int b - 1; ntot = n1 + n2
          in if ntot + 1 < 0 then Inl ValueError
             else
               let sfs_combined = pool s a b (replicate (nat (ntot + 1)) 0)
               in bindE
                    (foldE (\<lambda>derived1.
                        foldE (\<lambda>(derived_total, num_snps).
                            resample_step n1 ntot b (int derived1) (int derived_total) num_snps)
                          (enumerate 0 sfs_combined))
                      [0..<nat (n1 + 1)] (replicate (a * b) 0))
                    (\<lambda>sfs_resamp.
                       Inr \<lparr>shape = [a, b], vals = sfs_resamp, masked = replicate (a * b) False\<rparr>)
      | _ \<Rightarrow> Inl ValueError)"

subsection \<open>From a density to a spectrum\<close>

text \<open>
  One-dimensional numpy arrays are lists. An elementwise operation on two of them
  broadcasts an array of length one and raises ValueError for other unequal lengths.
\<close>

definition bcast :: "(real \<Rightarrow> real \<Rightarrow> real) \<Rightarrow> real list \<Rightarrow> real list \<Rightarrow> error + real list" where
  "bcast f xs ys =
     (if length xs = length ys then Inr (map2 f xs ys)
      else if length xs = 1 then Inr (map (f (hd xs)) ys)
      else if length ys = 1 then Inr (map (\<lambda>x. f x (hd ys)) xs)
      else Inl ValueError)"

text \<open>\<^verbatim>\<open>numpy.diff(a)\<close> is \<^verbatim>\<open>a[1:] - a[:-1]\<close>.\<close>

definition diff :: "real list \<Rightarrow> real list" where
  "diff a = map2 (-) (tl a) (butlast a)"

text \<open>
  The name \<^verbatim>\<open>trapz\<close> is bound twice; the later import, from
  \<^verbatim>\<open>scipy.integrate\<close>, is the one in force, and it is numpy's.
  \<^verbatim>\<open>trapz(y, dx=d)\<close> returns
  \<^verbatim>\<open>add.reduce(d * (y[1:]+y[:-1])/2.0)\<close>, and \<^verbatim>\<open>trapz(y, x)\<close> takes
  \<^verbatim>\<open>d = diff(x)\<close>.
\<close>

definition trapz_dx :: "real list \<Rightarrow> real list \<Rightarrow> error + real" where
  "trapz_dx y d =
     bindE (bcast (*) d (map2 (+) (tl y) (butlast y)))
       (\<lambda>w. Inr (sum_list (map (\<lambda>v. v / 2) w)))"

definition trapz :: "real list \<Rightarrow> real list \<Rightarrow> error + real" where
  "trapz y x = trapz_dx y (diff x)"

text \<open>\<^verbatim>\<open>comb(N, k)\<close> of scipy, in exact arithmetic the binomial coefficient.\<close>

definition comb :: "nat \<Rightarrow> nat \<Rightarrow> real" where
  "comb N k = real (N choose k)"

text \<open>\<^verbatim>\<open>comb(n, ii) * xx**ii * (1-xx)**(n-ii)\<close>, entry by entry.\<close>

definition factor :: "nat \<Rightarrow> nat \<Rightarrow> real list \<Rightarrow> real list" where
  "factor n ii xx = map (\<lambda>x. comb n ii * x ^ ii * (1 - x) ^ (n - ii)) xx"

definition sfs_from_phi_1D :: "nat \<Rightarrow> real list \<Rightarrow> real list \<Rightarrow> error + real list" where
  "sfs_from_phi_1D n xx phi =
     mapE (\<lambda>ii. let factorx = factor n ii xx
                in bindE (bcast (*) factorx phi) (\<lambda>y. trapz y xx))
          [0..<n + 1]"

text \<open>
  Line 65, \<^verbatim>\<open>numpy.sum(half_dx * (integrand[1:]+integrand[:-1]))\<close>: the trapezoid rule
  written out.
\<close>

definition half_step_sum :: "real list \<Rightarrow> real list \<Rightarrow> error + real" where
  "half_step_sum half_dx integrand =
     bindE (bcast (*) half_dx (map2 (+) (tl integrand) (butlast integrand)))
       (\<lambda>w. Inr (sum_list w))"

text \<open>The lookup \<^verbatim>\<open>cache[n, i]\<close> in a dictionary.\<close>

definition lookup :: "(nat \<times> nat \<rightharpoonup> real list) \<Rightarrow> nat \<times> nat \<Rightarrow> error + real list" where
  "lookup cache k = (case cache k of None \<Rightarrow> Inl KeyError | Some v \<Rightarrow> Inr v)"

text \<open>
  \<^verbatim>\<open>trapz(f * arr, dx=d)\<close> along the last axis of \<open>arr\<close>, for one row of that axis:
  \<open>f\<close> is broadcast against the row.
\<close>

definition integrate_row :: "real list \<Rightarrow> real list \<Rightarrow> real list \<Rightarrow> error + real" where
  "integrate_row f d row = bindE (bcast (*) f row) (\<lambda>y. trapz_dx y d)"

text \<open>
  The density \<open>phi\<close> is a three-dimensional array, a list (first axis) of lists
  (second axis) of rows (third axis), all rows of one length and all planes of one
  height. The caches are dictionaries with the keys \<open>(nx, ii)\<close> and \<open>(ny, jj)\<close>.
  The three nested loops run over \<open>kk\<close>, then \<open>jj\<close>, then \<open>ii\<close>, and store at
  \<^verbatim>\<open>sfs[ii,jj,kk]\<close>.
\<close>

definition sfs_from_phi_3D ::
    "nat \<Rightarrow> nat \<Rightarrow> nat \<Rightarrow> real list \<Rightarrow> real list \<Rightarrow> real list
       \<Rightarrow> real list list list \<Rightarrow> error + real list list list" where
  "sfs_from_phi_3D nx ny nz xx yy zz phi =
     (let dx = diff xx; dy = diff yy; dz = diff zz;
          half_dx = map (\<lambda>d. d / 2) dx;
          factorx_cache = map_of (map (\<lambda>ii. ((nx, ii), factor nx ii xx)) [0..<nx + 1]);
          factory_cache = map_of (map (\<lambda>jj. ((ny, jj), factor ny jj yy)) [0..<ny + 1])
      in bindE
           (mapE (\<lambda>kk.
              let factorz = factor nz kk zz
              in bindE (mapE (mapE (integrate_row factorz dz)) phi) (\<lambda>over_z.
                 mapE (\<lambda>jj.
                   bindE (lookup factory_cache (ny, jj)) (\<lambda>factory.
                   bindE (mapE (integrate_row factory dy) over_z) (\<lambda>over_y.
                   mapE (\<lambda>ii.
                     bindE (lookup factorx_cache (nx, ii)) (\<lambda>factorx.
                     bindE (bcast (*) factorx over_y) (\<lambda>integrand.
                     half_step_sum half_dx integrand)))
                     [0..<nx + 1])))
                   [0..<ny + 1]))
              [0..<nz + 1])
           (\<lambda>cube. Inr (map (\<lambda>ii. map (\<lambda>jj. map (\<lambda>kk. cube ! kk ! jj ! ii) [0..<nz + 1])
                                        [0..<ny + 1])
                          [0..<nx + 1])))"

text \<open>
  The variant of the specification: the same function, except that the innermost
  integral is the general quadrature \<^verbatim>\<open>trapz(integrand, dx=dx)\<close>, as
  \<^verbatim>\<open>sfs_from_phi_2D\<close> has it at line 35.
\<close>

definition sfs_from_phi_3D_trapz ::
    "nat \<Rightarrow> nat \<Rightarrow> nat \<Rightarrow> real list \<Rightarrow> real list \<Rightarrow> real list
       \<Rightarrow> real list list list \<Rightarrow> error + real list list list" where
  "sfs_from_phi_3D_trapz nx ny nz xx yy zz phi =
     (let dx = diff xx; dy = diff yy; dz = diff zz;
          factorx_cache = map_of (map (\<lambda>ii. ((nx, ii), factor nx ii xx)) [0..<nx + 1]);
          factory_cache = map_of (map (\<lambda>jj. ((ny, jj), factor ny jj yy)) [0..<ny + 1])
      in bindE
           (mapE (\<lambda>kk.
              let factorz = factor nz kk zz
              in bindE (mapE (mapE (integrate_row factorz dz)) phi) (\<lambda>over_z.
                 mapE (\<lambda>jj.
                   bindE (lookup factory_cache (ny, jj)) (\<lambda>factory.
                   bindE (mapE (integrate_row factory dy) over_z) (\<lambda>over_y.
                   mapE (\<lambda>ii.
                     bindE (lookup factorx_cache (nx, ii)) (\<lambda>factorx.
                     bindE (bcast (*) factorx over_y) (\<lambda>integrand.
                     trapz_dx integrand dx)))
                     [0..<nx + 1])))
                   [0..<ny + 1]))
              [0..<nz + 1])
           (\<lambda>cube. Inr (map (\<lambda>ii. map (\<lambda>jj. map (\<lambda>kk. cube ! kk ! jj ! ii) [0..<nz + 1])
                                        [0..<ny + 1])
                          [0..<nx + 1])))"

section \<open>Properties\<close>

lemma length_corner_mask: "length (corner_mask sz) = sz"
  by (simp add: corner_mask_def)

lemma corner_mask_nth:
  "i < sz \<Longrightarrow> corner_mask sz ! i \<longleftrightarrow> i = 0 \<or> i = sz - 1"
  by (auto simp: corner_mask_def nth_list_update)

lemma map2_or_idem:
  "length ms = length cs \<Longrightarrow> map2 (\<or>) (map2 (\<or>) ms cs) cs = map2 (\<or>) ms cs"
  by (induction ms cs rule: list_induct2) auto

lemma raised_not_ValueError:
  "r \<noteq> Inl ValueError \<Longrightarrow> raised r \<noteq> Some ValueError"
  by (auto simp: raised_def split: sum.splits if_splits)

lemma mask_corners_not_ValueError: "mask_corners s \<noteq> Inl ValueError"
  by (simp add: mask_corners_def)

lemma fdiv_not_ValueError: "fdiv a b \<noteq> Inl ValueError"
  by (simp add: fdiv_def)

lemma Watterson_theta_rank1: "ndim s = 1 \<Longrightarrow> Watterson_theta s \<noteq> Inl ValueError"
  by (auto simp: Watterson_theta_def Let_def mask_corners_def fdiv_def split: sum.splits)

lemma pi_sfs_rank1: "ndim s = 1 \<Longrightarrow> pi_sfs s \<noteq> Inl ValueError"
  by (simp add: pi_sfs_def Let_def)

lemma Tajima_D_rank1:
  assumes "ndim s = 1"
  shows "Tajima_D s \<noteq> Inl ValueError"
proof -
  have p: "raised (pi_sfs s) \<noteq> Some ValueError"
    using assms by (intro raised_not_ValueError pi_sfs_rank1)
  have t: "raised (Watterson_theta s) \<noteq> Some ValueError"
    using assms by (intro raised_not_ValueError Watterson_theta_rank1)
  show ?thesis
    using p t assms mask_corners_not_ValueError [of s]
    by (auto simp: Tajima_D_def Let_def fdiv_def split: sum.splits option.splits)
qed

lemma ma_sum_Cons:
  "ma_sum (x # xs) (m # ms) = (if m then 0 else x) + ma_sum xs ms"
  by (simp add: ma_sum_def)

lemma ma_sum_lessThan:
  "length xs = length ms \<Longrightarrow> ma_sum xs ms = (\<Sum>i<length xs. if ms ! i then 0 else xs ! i)"
proof (induction xs ms rule: list_induct2)
  case Nil
  show ?case by (simp add: ma_sum_def)
next
  case (Cons x xs m ms)
  show ?case
    unfolding ma_sum_Cons Cons.IH
    by (simp add: sum.lessThan_Suc_shift del: sum.lessThan_Suc cong: if_cong)
qed

lemma ma_sum_unmasked:
  assumes "length xs = length ms"
  shows "ma_sum xs ms = (\<Sum>i | i < length xs \<and> \<not> ms ! i. xs ! i)"
proof -
  have "(\<Sum>i<length xs. if ms ! i then 0 else xs ! i)
      = (\<Sum>i\<in>{i \<in> {..<length xs}. \<not> ms ! i}. xs ! i)"
    by (rule sum.mono_neutral_cong_right) auto
  also have "{i \<in> {..<length xs}. \<not> ms ! i} = {i. i < length xs \<and> \<not> ms ! i}"
    by auto
  finally show ?thesis using ma_sum_lessThan [OF assms] by simp
qed

lemma prod_list_pos: "0 \<notin> set ns \<Longrightarrow> 0 < prod_list (ns :: nat list)"
  by (induction ns) auto

lemma size_sfs_pos: "0 \<notin> set (shape s) \<Longrightarrow> 0 < size_sfs s"
  by (simp add: size_sfs_def prod_list_pos)

subsection \<open>Corner masking\<close>

text \<open>
  Claim C9. \<^verbatim>\<open>mask_corners\<close> is idempotent and only adds to the mask. For an SFS of
  any rank (every axis has at least one entry, as \<open>n_k + 1\<close> has), masking the corners
  of \<open>s\<close> gives an array \<open>s1\<close> with the shape and the entry values of \<open>s\<close>;
  masking the corners of \<open>s1\<close> again gives \<open>s1\<close> itself, mask and values; an entry
  is masked in \<open>s1\<close> exactly when it was masked in \<open>s\<close> or is the first or the last
  entry, so every entry masked in the input is still masked in the output.
\<close>

theorem mask_corners_idempotent_additive:
  assumes "wf_sfs s" and "0 \<notin> set (shape s)"
  shows "\<exists>s1. mask_corners s = Inr s1 \<and> mask_corners s1 = Inr s1
           \<and> shape s1 = shape s \<and> vals s1 = vals s
           \<and> length (masked s1) = size_sfs s
           \<and> (\<forall>i<size_sfs s. masked s1 ! i \<longleftrightarrow> masked s ! i \<or> i = 0 \<or> i = size_sfs s - 1)
           \<and> (\<forall>i<size_sfs s. masked s ! i \<longrightarrow> masked s1 ! i)"
proof -
  let ?c = "corner_mask (size_sfs s)"
  let ?s1 = "s\<lparr>masked := map2 (\<or>) (masked s) ?c\<rparr>"
  have pos: "0 < size_sfs s" using assms(2) by (rule size_sfs_pos)
  have len: "length (masked s) = length ?c"
    using assms(1) by (simp add: wf_sfs_def length_corner_mask)
  have sz: "size_sfs ?s1 = size_sfs s" by (simp add: size_sfs_def)
  have m1: "mask_corners s = Inr ?s1" using pos by (simp add: mask_corners_def)
  have m2: "mask_corners ?s1 = Inr ?s1"
    using pos by (simp add: mask_corners_def sz map2_or_idem [OF len])
  have l: "length (masked ?s1) = size_sfs s"
    using len by (simp add: length_corner_mask)
  have n: "masked ?s1 ! i \<longleftrightarrow> masked s ! i \<or> i = 0 \<or> i = size_sfs s - 1"
    if "i < size_sfs s" for i
    using that len by (simp add: length_corner_mask corner_mask_nth)
  show ?thesis using m1 m2 l n by (intro exI [of _ ?s1]) simp
qed

theorem mask_corners_idempotent_additive_witness:
  "mask_corners \<lparr>shape = [2, 2], vals = [5, 1, 1, 7], masked = [False, True, False, False]\<rparr>
     = Inr \<lparr>shape = [2, 2], vals = [5, 1, 1, 7], masked = [True, True, False, True]\<rparr>
   \<and> mask_corners \<lparr>shape = [2, 2], vals = [5, 1, 1, 7], masked = [True, True, False, True]\<rparr>
     = Inr \<lparr>shape = [2, 2], vals = [5, 1, 1, 7], masked = [True, True, False, True]\<rparr>"
proof -
  let ?s = "\<lparr>shape = [2, 2], vals = [5, 1, 1, 7], masked = [False, True, False, False]\<rparr>"
  have wf: "wf_sfs ?s" by (simp add: wf_sfs_def size_sfs_def)
  have nz: "0 \<notin> set (shape ?s)" by simp
  from mask_corners_idempotent_additive [OF wf nz]
  obtain s1 where a: "mask_corners ?s = Inr s1" and b: "mask_corners s1 = Inr s1"
    by blast
  have c: "mask_corners ?s
      = Inr \<lparr>shape = [2, 2], vals = [5, 1, 1, 7], masked = [True, True, False, True]\<rparr>"
    by code_simp
  from a b c show ?thesis by simp
qed

subsection \<open>The rank check of the one-population statistics\<close>

text \<open>
  Claim C10. For an SFS whose rank is not 1, each of \<^verbatim>\<open>Watterson_theta\<close>,
  \<^verbatim>\<open>pi\<close> and \<^verbatim>\<open>Tajima_D\<close> raises the ValueError "Only defined on a
  one-dimensional SFS." instead of returning; for an SFS of rank 1 none of them raises
  that error (they return, or stop on another condition).
\<close>

theorem dimensionality_error_iff_rank_not_1:
  "(ndim s \<noteq> 1 \<longrightarrow>
      Watterson_theta s = Inl ValueError \<and> pi_sfs s = Inl ValueError
      \<and> Tajima_D s = Inl ValueError)
   \<and> (ndim s = 1 \<longrightarrow>
      Watterson_theta s \<noteq> Inl ValueError \<and> pi_sfs s \<noteq> Inl ValueError
      \<and> Tajima_D s \<noteq> Inl ValueError)"
proof (intro conjI impI)
  assume "ndim s \<noteq> 1"
  then show "Watterson_theta s = Inl ValueError" by (simp add: Watterson_theta_def)
  from \<open>ndim s \<noteq> 1\<close> show "pi_sfs s = Inl ValueError" by (simp add: pi_sfs_def)
  from \<open>ndim s \<noteq> 1\<close> show "Tajima_D s = Inl ValueError" by (simp add: Tajima_D_def)
next
  assume "ndim s = 1"
  then show "Watterson_theta s \<noteq> Inl ValueError" by (rule Watterson_theta_rank1)
  from \<open>ndim s = 1\<close> show "pi_sfs s \<noteq> Inl ValueError" by (rule pi_sfs_rank1)
  from \<open>ndim s = 1\<close> show "Tajima_D s \<noteq> Inl ValueError" by (rule Tajima_D_rank1)
qed

theorem dimensionality_error_iff_rank_not_1_witness:
  "ndim \<lparr>shape = [2, 2], vals = [0, 1, 1, 0], masked = [False, False, False, False]\<rparr> \<noteq> 1
   \<and> Watterson_theta \<lparr>shape = [2, 2], vals = [0, 1, 1, 0],
        masked = [False, False, False, False]\<rparr> = Inl ValueError
   \<and> pi_sfs \<lparr>shape = [2, 2], vals = [0, 1, 1, 0],
        masked = [False, False, False, False]\<rparr> = Inl ValueError
   \<and> Tajima_D \<lparr>shape = [2, 2], vals = [0, 1, 1, 0],
        masked = [False, False, False, False]\<rparr> = Inl ValueError
   \<and> ndim \<lparr>shape = [3], vals = [0, 4, 0], masked = [False, False, False]\<rparr> = 1
   \<and> Watterson_theta \<lparr>shape = [3], vals = [0, 4, 0], masked = [False, False, False]\<rparr>
        \<noteq> Inl ValueError
   \<and> pi_sfs \<lparr>shape = [3], vals = [0, 4, 0], masked = [False, False, False]\<rparr>
        \<noteq> Inl ValueError
   \<and> Tajima_D \<lparr>shape = [3], vals = [0, 4, 0], masked = [False, False, False]\<rparr>
        \<noteq> Inl ValueError"
  using dimensionality_error_iff_rank_not_1
          [of "\<lparr>shape = [2, 2], vals = [0, 1, 1, 0], masked = [False, False, False, False]\<rparr>"]
        dimensionality_error_iff_rank_not_1
          [of "\<lparr>shape = [3], vals = [0, 4, 0], masked = [False, False, False]\<rparr>"]
  by (simp add: ndim_def)

subsection \<open>Watterson's theta\<close>

lemma harmonic_arange:
  "sum_list (map (\<lambda>i. 1 / real_of_int i) (arange 1 (int m))) = (\<Sum>i = 1..m - 1. 1 / real i)"
proof -
  have "sum_list (map (\<lambda>i. 1 / real_of_int i) [1..int m - 1])
      = (\<Sum>i\<in>{1..int m - 1}. 1 / real_of_int i)"
    by (simp add: sum_list_distinct_conv_sum_set)
  also have "{1..int m - 1} = int ` {1..m - 1}"
    by (cases m) (auto simp: image_int_atLeastAtMost)
  also have "(\<Sum>i\<in>int ` {1..m - 1}. 1 / real_of_int i) = (\<Sum>i = 1..m - 1. 1 / real i)"
    by (subst sum.reindex) (auto simp: inj_on_def)
  finally show ?thesis by (simp add: arange_def)
qed

lemma harmonic_pos: "2 \<le> n \<Longrightarrow> 0 < (\<Sum>i = 1..n - 1. 1 / real i)"
  by (rule sum_pos) auto

text \<open>
  Claim C8. For a one-dimensional SFS of length \<open>n + 1\<close> with \<open>n \<ge> 2\<close>,
  \<^verbatim>\<open>Watterson_theta\<close> returns \<open>S / (1/1 + ... + 1/(n-1))\<close>, where \<open>S\<close> is the
  sum of the entries left after the first and the last entry are masked (entries the input
  already masks stay out); for the SFS \<open>[0,2,3,1,0]\<close> this is \<open>6 / (1 + 1/2 + 1/3) =
  36/11\<close>.
\<close>

theorem Watterson_theta_formula:
  assumes "shape s = [n + 1]" and "2 \<le> n" and "wf_sfs s"
  shows "Watterson_theta s
           = Inr ((\<Sum>i | 1 \<le> i \<and> i < n \<and> \<not> masked s ! i. vals s ! i)
                  / (\<Sum>i = 1..n - 1. 1 / real i))
         \<and> Watterson_theta \<lparr>shape = [5], vals = [0, 2, 3, 1, 0],
               masked = [False, False, False, False, False]\<rparr> = Inr (36 / 11)"
proof
  let ?mc = "map2 (\<or>) (masked s) (corner_mask (n + 1))"
  have sz: "size_sfs s = n + 1" using assms(1) by (simp add: size_sfs_def)
  have lv: "length (vals s) = n + 1" and lm: "length (masked s) = n + 1"
    using assms(3) sz by (simp_all add: wf_sfs_def)
  have len: "length (vals s) = length ?mc"
    using lv lm by (simp add: length_corner_mask)
  have set_eq: "{i. i < length (vals s) \<and> \<not> ?mc ! i} = {i. 1 \<le> i \<and> i < n \<and> \<not> masked s ! i}"
    using lv lm by (auto simp: length_corner_mask corner_mask_nth)
  have S: "ma_sum (vals s) ?mc = (\<Sum>i | 1 \<le> i \<and> i < n \<and> \<not> masked s ! i. vals s ! i)"
    unfolding ma_sum_unmasked [OF len] set_eq ..
  have denom: "sum_list (map (\<lambda>i. 1 / real_of_int i) (arange 1 (int n)))
      = (\<Sum>i = 1..n - 1. 1 / real i)"
    by (rule harmonic_arange)
  have ne: "(\<Sum>i = 1..n - 1. 1 / real i) \<noteq> 0"
    using harmonic_pos [OF assms(2)] by simp
  show "Watterson_theta s
           = Inr ((\<Sum>i | 1 \<le> i \<and> i < n \<and> \<not> masked s ! i. vals s ! i)
                  / (\<Sum>i = 1..n - 1. 1 / real i))"
    using assms(1) sz S denom ne
    by (simp add: Watterson_theta_def ndim_def mask_corners_def fdiv_def)
next
  show "Watterson_theta \<lparr>shape = [5], vals = [0, 2, 3, 1, 0],
               masked = [False, False, False, False, False]\<rparr> = Inr (36 / 11)"
    by code_simp
qed

theorem Watterson_theta_formula_witness:
  "Watterson_theta \<lparr>shape = [4], vals = [9, 2, 5, 9], masked = [False, False, False, False]\<rparr>
     = Inr ((\<Sum>i | 1 \<le> i \<and> i < 3
              \<and> \<not> [False, False, False, False] ! i. [9, 2, 5, 9 :: real] ! i)
            / (\<Sum>i = 1..(3::nat) - 1. 1 / real i))
   \<and> Watterson_theta \<lparr>shape = [4], vals = [9, 2, 5, 9], masked = [False, False, False, False]\<rparr>
     = Inr (14 / 3)"
proof -
  let ?s = "\<lparr>shape = [4], vals = [9, 2, 5, 9], masked = [False, False, False, False]\<rparr>"
  have a: "shape ?s = [3 + 1]" by simp
  have b: "(2::nat) \<le> 3" by simp
  have c: "wf_sfs ?s" by (simp add: wf_sfs_def size_sfs_def)
  have d: "Watterson_theta ?s = Inr (14 / 3)" by code_simp
  from Watterson_theta_formula [OF a b c] d show ?thesis by simp
qed

subsection \<open>The integer quotients of pi and Fst\<close>

text \<open>
  What \<^verbatim>\<open>pi\<close> computes on a one-dimensional SFS of length \<open>n + 1\<close>: the factor
  in front of the sum is the truncated quotient, which is 1 from \<open>n = 3\<close> on.
\<close>

lemma arange_0_nat: "arange 0 (int n) = map int [0..<n]"
proof (induction n)
  case 0
  show ?case by (simp add: arange_def)
next
  case (Suc n)
  have "[0..int (Suc n) - 1] = [0..int n - 1] @ [int n]"
    using upto_rec2 [of 0 "int n"] by simp
  with Suc show ?case by (simp add: arange_def)
qed

lemma pi_sfs_value:
  assumes "shape s = [n + 1]" and "2 \<le> n" and "wf_sfs s"
  shows "pi_sfs s
           = Inr (real (n div (n - 1)) * 2 *
                  (\<Sum>i | i \<le> n \<and> \<not> masked s ! i.
                      vals s ! i * (real i / real n) * (1 - real i / real n)))"
proof -
  let ?p = "map (\<lambda>i. real_of_int i / real_of_int (int n)) (arange 0 (int n + 1))"
  let ?t = "map2 (\<lambda>x q. x * q * (1 - q)) (vals s) ?p"
  have sz: "size_sfs s = n + 1" using assms(1) by (simp add: size_sfs_def)
  have lv: "length (vals s) = n + 1" and lm: "length (masked s) = n + 1"
    using assms(3) sz by (simp_all add: wf_sfs_def)
  have ar: "arange 0 (int n + 1) = map int [0..<n + 1]"
    using arange_0_nat [of "n + 1"] by (simp only: of_nat_add of_nat_1)
  have p: "?p = map (\<lambda>i. real i / real n) [0..<n + 1]"
    unfolding ar by (simp add: o_def del: upt_Suc)
  have lt: "length ?t = length (masked s)" using lv lm by (simp add: ar del: upt_Suc)
  have nth: "?t ! i = vals s ! i * (real i / real n) * (1 - real i / real n)" if "i \<le> n" for i
    using that lv unfolding p by (simp del: upt_Suc)
  have "ma_sum ?t (masked s) = (\<Sum>i | i < length ?t \<and> \<not> masked s ! i. ?t ! i)"
    by (rule ma_sum_unmasked [OF lt])
  also have "\<dots> = (\<Sum>i | i \<le> n \<and> \<not> masked s ! i.
                      vals s ! i * (real i / real n) * (1 - real i / real n))"
    using lv by (intro sum.cong) (auto simp: ar nth simp del: upt_Suc)
  finally have sum_eq: "ma_sum ?t (masked s) = (\<Sum>i | i \<le> n \<and> \<not> masked s ! i.
                      vals s ! i * (real i / real n) * (1 - real i / real n))" .
  have q: "int n div (int n - 1) = int (n div (n - 1))"
    using assms(2) by (simp add: zdiv_int of_nat_diff)
  show ?thesis
    using assms(1,2) sum_eq q
    by (simp add: pi_sfs_def ndim_def Let_def)
qed

lemma pi_sfs_factor_is_1:
  assumes "shape s = [n + 1]" and "3 \<le> n" and "wf_sfs s"
  shows "pi_sfs s
           = Inr (2 * (\<Sum>i | i \<le> n \<and> \<not> masked s ! i.
                         vals s ! i * (real i / real n) * (1 - real i / real n)))"
proof -
  have "n div (n - 1) = 1"
    using assms(2) by (intro div_nat_eqI) auto
  with pi_sfs_value [OF assms(1) _ assms(3)] assms(2) show ?thesis by simp
qed

text \<open>
  Claim C2 says that \<^verbatim>\<open>pi\<close> returns \<open>n/(n-1) * 2 * sum_i sfs[i]*p_i*(1-p_i)\<close> with
  \<open>n/(n-1)\<close> the exact ratio. In the code \<open>n\<close> and \<open>n-1\<close> are Python 2
  ints and the quotient is truncated: for the SFS \<open>[0,2,3,1,0]\<close> (\<open>n = 4\<close>, the sum
  is \<open>21/16\<close>) the code computes \<open>4 div 3 * 2 * 21/16 = 21/8\<close>, where the formula
  of the claim gives \<open>4/3 * 2 * 21/16 = 7/2\<close>.
\<close>

theorem pi_truncates_ratio:
  "pi_sfs \<lparr>shape = [5], vals = [0, 2, 3, 1, 0], masked = [False, False, False, False, False]\<rparr>
     = Inr (21 / 8)
   \<and> pi_spec \<lparr>shape = [5], vals = [0, 2, 3, 1, 0],
        masked = [False, False, False, False, False]\<rparr> = 7 / 2"
  by code_simp

text \<open>
  Claim C1 says that \<^verbatim>\<open>Fst\<close> returns \<open>asum/(asum+dsum)\<close> with \<open>(r-1)/r\<close>
  and \<open>sum(ns^2)/nsum\<close> exact quotients. In the code both are quotients of integers
  and are truncated, \<open>(r-1)/r\<close> to 0: for the two-population SFS \<open>[[0,1],[1,0]]\<close>
  (every site fixed in one population and absent in the other) the code returns
  \<open>1/3\<close>, where the formula of the claim gives 1.
\<close>

theorem Fst_truncates_ratio:
  "Fst \<lparr>shape = [2, 2], vals = [0, 1, 1, 0], masked = [False, False, False, False]\<rparr>
     = Inr (1 / 3)
   \<and> Fst_spec \<lparr>shape = [2, 2], vals = [0, 1, 1, 0], masked = [False, False, False, False]\<rparr> = 1"
  by code_simp

subsection \<open>Resampling\<close>

lemma foldE_first_raises:
  "xs \<noteq> [] \<Longrightarrow> (\<And>st. f (hd xs) st = Inl e) \<Longrightarrow> foldE f xs st = Inl e"
  by (cases xs) (simp_all add: bindE_def)

lemma length_fold_update:
  "length (fold (\<lambda>(ii, jj) acc. if c ii jj then acc else acc[k ii jj := v ii jj acc]) ps zs)
     = length zs"
  by (induction ps arbitrary: zs) (auto split: prod.splits)

lemma length_pool: "length (pool s a b zeros) = length zeros"
  unfolding pool_def Let_def by (rule length_fold_update)

lemma resample_step_raises:
  "resample_step n1 ntot b d1 dt num st = Inl NameError"
  by (simp add: resample_step_def lncomb_def bindE_def)

lemma randomly_resampled_2D_raises:
  assumes "shape s = [a, b]" and "1 \<le> a" and "2 \<le> a + b"
  shows "randomly_resampled_2D s = Inl NameError"
proof -
  let ?ntot = "int a - 1 + (int b - 1)"
  let ?comb = "pool s a b (replicate (nat (?ntot + 1)) 0)"
  have "length ?comb = a + b - 1"
    using assms(3) by (simp add: length_pool nat_diff_distrib')
  then have ne: "enumerate 0 ?comb \<noteq> []"
    using assms(3) by (cases ?comb) auto
  have inner: "foldE (\<lambda>(derived_total, num_snps).
                  resample_step (int a - 1) ?ntot b (int d1) (int derived_total) num_snps)
                (enumerate 0 ?comb) st = Inl NameError" for d1 st
    using ne by (intro foldE_first_raises) (auto simp: resample_step_raises split: prod.splits)
  have outer_ne: "[0..<nat (int a - 1 + 1)] \<noteq> []" using assms(2) by simp
  have outer: "foldE (\<lambda>derived1.
                  foldE (\<lambda>(derived_total, num_snps).
                      resample_step (int a - 1) ?ntot b (int derived1) (int derived_total) num_snps)
                    (enumerate 0 ?comb))
                [0..<nat (int a - 1 + 1)] st = Inl NameError" for st
    using outer_ne by (rule foldE_first_raises) (rule inner)
  have nonneg: "(?ntot + 1 < 0) = False" using assms(3) by simp
  show ?thesis
    unfolding randomly_resampled_2D_def assms(1) list.case Let_def
    by (simp only: nonneg if_False outer bindE_def sum.case)
qed

text \<open>
  Claim C7. For a two-dimensional SFS of shape \<open>(a, b)\<close> with at least one row and
  at least one pooled bin (\<open>a + b - 1 \<ge> 1\<close>), \<^verbatim>\<open>randomly_resampled_2D\<close> raises
  NameError before it returns: the first pass of its second loop evaluates
  \<^verbatim>\<open>lncomb\<close>, a name the module neither defines nor imports.
\<close>

theorem randomly_resampled_2D_unbound_name:
  assumes "shape s = [a, b]" and "1 \<le> a" and "2 \<le> a + b"
  shows "randomly_resampled_2D s = Inl NameError"
  using assms by (rule randomly_resampled_2D_raises)

theorem randomly_resampled_2D_unbound_name_witness:
  "randomly_resampled_2D
     \<lparr>shape = [2, 3], vals = [1, 2, 3, 4, 5, 6],
        masked = [False, False, False, False, False, False]\<rparr> = Inl NameError"
proof -
  let ?s = "\<lparr>shape = [2, 3], vals = [1, 2, 3, 4, 5, 6],
        masked = [False, False, False, False, False, False]\<rparr>"
  have a: "shape ?s = [2, 3]" by simp
  show ?thesis by (rule randomly_resampled_2D_unbound_name [OF a]) simp_all
qed

text \<open>
  Claim C6 says that the entries of \<^verbatim>\<open>randomly_resampled_2D(sfs)\<close> sum to the sum
  of the unmasked entries of \<open>sfs\<close>. For the SFS \<open>[[0,1],[1,0]]\<close>, whose entries
  sum to 2, the code returns no spectrum at all: it raises NameError.
\<close>

theorem randomly_resampled_2D_returns_nothing:
  "randomly_resampled_2D
     \<lparr>shape = [2, 2], vals = [0, 1, 1, 0], masked = [False, False, False, False]\<rparr>
   = Inl NameError"
  by (rule randomly_resampled_2D_raises [where a = 2 and b = 2]) simp_all

subsection \<open>Scaling\<close>

lemma ma_sum_joint:
  assumes "length xs = n" and "length m1 = n" and "length m2 = n"
  shows "ma_sum xs (map2 (\<or>) m1 m2) = (\<Sum>i | i < n \<and> \<not> m1 ! i \<and> \<not> m2 ! i. xs ! i)"
proof -
  have l: "length xs = length (map2 (\<or>) m1 m2)" using assms by simp
  have "{i. i < length xs \<and> \<not> map2 (\<or>) m1 m2 ! i} = {i. i < n \<and> \<not> m1 ! i \<and> \<not> m2 ! i}"
    using assms by auto
  then show ?thesis unfolding ma_sum_unmasked [OF l] by simp
qed

text \<open>
  On two arrays of integers the quotient is truncated: the model \<open>[1,2]\<close> and the
  data \<open>[1,3]\<close> give \<open>4 div 3 = 1\<close>.
\<close>

lemma optimal_sfs_scaling_integer_arrays:
  "optimal_sfs_scaling Int_dtype \<lparr>shape = [2], vals = [1, 2], masked = [False, False]\<rparr>
      Int_dtype \<lparr>shape = [2], vals = [1, 3], masked = [False, False]\<rparr> = Inr 1"
  by (simp add: optimal_sfs_scaling_def intersect_masks_def Let_def ma_sum_def)

text \<open>
  Claim C5, amended. For a model and data of the same shape, at least one of them an
  array of floats, \<^verbatim>\<open>optimal_sfs_scaling\<close> returns the sum of the data divided by
  the sum of the model, both over the entries masked in neither array, when that sum of
  the model is not zero; this scalar \<open>c\<close> makes the totals agree,
  \<open>c * sum(model) = sum(data)\<close>. (It is not in general the minimiser of the sum of
  squares, see below; what two arrays of integers give is left out.)
\<close>

theorem optimal_sfs_scaling_ratio_of_totals:
  assumes "model_dtype = Float_dtype \<or> data_dtype = Float_dtype"
    and "shape model = shape data" and "wf_sfs model" and "wf_sfs data"
    and "(\<Sum>i | i < size_sfs model \<and> \<not> masked model ! i \<and> \<not> masked data ! i. vals model ! i) \<noteq> 0"
  shows "\<exists>c. optimal_sfs_scaling model_dtype model data_dtype data = Inr c
           \<and> c = (\<Sum>i | i < size_sfs model \<and> \<not> masked model ! i \<and> \<not> masked data ! i. vals data ! i)
                 / (\<Sum>i | i < size_sfs model \<and> \<not> masked model ! i \<and> \<not> masked data ! i. vals model ! i)
           \<and> c * (\<Sum>i | i < size_sfs model \<and> \<not> masked model ! i \<and> \<not> masked data ! i. vals model ! i)
               = (\<Sum>i | i < size_sfs model \<and> \<not> masked model ! i \<and> \<not> masked data ! i. vals data ! i)"
proof -
  let ?n = "size_sfs model"
  let ?j = "map2 (\<or>) (masked model) (masked data)"
  have sz: "size_sfs data = ?n" using assms(2) by (simp add: size_sfs_def)
  have lm: "length (vals model) = ?n" "length (masked model) = ?n"
    using assms(3) by (simp_all add: wf_sfs_def)
  have ld: "length (vals data) = ?n" "length (masked data) = ?n"
    using assms(4) sz by (simp_all add: wf_sfs_def)
  have m: "ma_sum (vals model) ?j
      = (\<Sum>i | i < ?n \<and> \<not> masked model ! i \<and> \<not> masked data ! i. vals model ! i)"
    using lm ld by (intro ma_sum_joint) simp_all
  have d: "ma_sum (vals data) ?j
      = (\<Sum>i | i < ?n \<and> \<not> masked model ! i \<and> \<not> masked data ! i. vals data ! i)"
    using lm ld by (intro ma_sum_joint) simp_all
  have float: "(model_dtype = Int_dtype \<and> data_dtype = Int_dtype) = False"
    using assms(1) by auto
  show ?thesis
    using assms(2,5)
    by (simp add: optimal_sfs_scaling_def intersect_masks_def Let_def fdiv_def m d float)
qed

theorem optimal_sfs_scaling_ratio_of_totals_witness:
  "optimal_sfs_scaling
      Float_dtype \<lparr>shape = [3], vals = [1, 2, 5], masked = [False, False, True]\<rparr>
      Int_dtype \<lparr>shape = [3], vals = [1, 3, 9], masked = [False, False, False]\<rparr>
   = Inr (4 / 3)"
proof -
  let ?m = "\<lparr>shape = [3], vals = [1, 2, 5], masked = [False, False, True]\<rparr>"
  let ?d = "\<lparr>shape = [3], vals = [1, 3, 9], masked = [False, False, False]\<rparr>"
  have set_eq: "{i. i < size_sfs ?m \<and> \<not> masked ?m ! i \<and> \<not> masked ?d ! i} = {0, 1}"
    by (auto simp: size_sfs_def nth_Cons' less_Suc_eq numeral_3_eq_3)
  have f: "Float_dtype = Float_dtype \<or> Int_dtype = Float_dtype" by simp
  have a: "shape ?m = shape ?d" by simp
  have b: "wf_sfs ?m" "wf_sfs ?d" by (simp_all add: wf_sfs_def size_sfs_def)
  have c: "(\<Sum>i | i < size_sfs ?m \<and> \<not> masked ?m ! i \<and> \<not> masked ?d ! i. vals ?m ! i) \<noteq> 0"
    unfolding set_eq by simp
  from optimal_sfs_scaling_ratio_of_totals [OF f a b c]
  obtain c where r: "optimal_sfs_scaling Float_dtype ?m Int_dtype ?d = Inr c"
    and v: "c = (\<Sum>i | i < size_sfs ?m \<and> \<not> masked ?m ! i \<and> \<not> masked ?d ! i. vals ?d ! i)
                / (\<Sum>i | i < size_sfs ?m \<and> \<not> masked ?m ! i \<and> \<not> masked ?d ! i. vals ?m ! i)"
    by blast
  have "c = 4 / 3" using v unfolding set_eq by simp
  with r show ?thesis by simp
qed

text \<open>
  The claim as stated fails: for the model \<open>[1.,2.]\<close> and the data \<open>[1.,3.]\<close>,
  two arrays of floats, the function returns \<open>4/3\<close>, whose sum of squares \<open>2/9\<close>
  is larger than the \<open>1/5\<close> of the scalar \<open>7/5\<close>.
\<close>

theorem optimal_sfs_scaling_not_least_squares:
  "optimal_sfs_scaling
      Float_dtype \<lparr>shape = [2], vals = [1, 2], masked = [False, False]\<rparr>
      Float_dtype \<lparr>shape = [2], vals = [1, 3], masked = [False, False]\<rparr> = Inr (4 / 3)
   \<and> squared_error \<lparr>shape = [2], vals = [1, 2], masked = [False, False]\<rparr>
      \<lparr>shape = [2], vals = [1, 3], masked = [False, False]\<rparr> (7 / 5)
     < squared_error \<lparr>shape = [2], vals = [1, 2], masked = [False, False]\<rparr>
      \<lparr>shape = [2], vals = [1, 3], masked = [False, False]\<rparr> (4 / 3)"
  by (simp add: optimal_sfs_scaling_def intersect_masks_def Let_def ma_sum_def fdiv_def
        squared_error_def power2_eq_square)

subsection \<open>The trapezoid rule\<close>

lemma bcast_same_length: "length xs = length ys \<Longrightarrow> bcast f xs ys = Inr (map2 f xs ys)"
  by (simp add: bcast_def)

lemma length_diff: "length (diff a) = length a - 1"
  by (simp add: diff_def)

lemma bcast_halved:
  "bcast (*) (map (\<lambda>d. d / 2) dx) w
     = bindE (bcast (*) dx w) (\<lambda>z. Inr (map (\<lambda>v. v / 2) z))"
proof -
  have a: "map2 (*) (map (\<lambda>d. d / 2) dx) w = map (\<lambda>v. v / 2) (map2 (*) dx w)"
    by (simp add: zip_map1 case_prod_unfold)
  have b: "hd (map (\<lambda>d. d / 2) dx) = hd dx / 2" if "length dx = 1"
    using that by (cases dx) simp_all
  show ?thesis
    by (simp add: bcast_def bindE_def a b)
qed

lemma half_step_sum_trapz_dx:
  "half_step_sum (map (\<lambda>d. d / 2) dx) integrand = trapz_dx integrand dx"
  by (simp add: half_step_sum_def trapz_dx_def bcast_halved bindE_def split: sum.splits)

text \<open>
  Claim C4. For every integrand \<open>f\<close> and grid \<open>xx\<close>, the half-step weighted sum
  \<^verbatim>\<open>sum(dx/2 * (f[1:] + f[:-1]))\<close> with \<^verbatim>\<open>dx = diff(xx)\<close> that
  \<^verbatim>\<open>sfs_from_phi_3D\<close> writes out on its innermost axis is the general trapezoid
  quadrature of \<open>f\<close> over \<open>xx\<close>, so \<^verbatim>\<open>sfs_from_phi_3D\<close> and the variant that calls
  the general quadrature there give the same result (the same array, or the same
  error) on every input.
\<close>

theorem explicit_trapezoid_is_trapz:
  "half_step_sum (map (\<lambda>d. d / 2) (diff xx)) f = trapz f xx
   \<and> sfs_from_phi_3D nx ny nz xx yy zz phi = sfs_from_phi_3D_trapz nx ny nz xx yy zz phi"
proof
  show "half_step_sum (map (\<lambda>d. d / 2) (diff xx)) f = trapz f xx"
    by (simp only: trapz_def half_step_sum_trapz_dx)
  have inner: "half_step_sum (map (\<lambda>d. d / 2) (diff xx))
      = (\<lambda>integrand. trapz_dx integrand (diff xx))"
    by (rule ext) (rule half_step_sum_trapz_dx)
  show "sfs_from_phi_3D nx ny nz xx yy zz phi = sfs_from_phi_3D_trapz nx ny nz xx yy zz phi"
    unfolding sfs_from_phi_3D_def sfs_from_phi_3D_trapz_def Let_def inner ..
qed

theorem explicit_trapezoid_is_trapz_witness:
  "half_step_sum (map (\<lambda>d. d / 2) (diff [0, 1 / 2, 1])) [4, 2, 6] = Inr (7 / 2)
   \<and> trapz [4, 2, 6] [0, 1 / 2, 1] = Inr (7 / 2)
   \<and> sfs_from_phi_3D 1 1 1 [0, 1 / 2, 1] [0, 1] [0, 1 / 4, 1]
        [[[1, 2, 3], [4, 5, 6]], [[1, 2, 3], [4, 5, 6]], [[1, 2, 3], [4, 5, 6]]]
      = Inr [[[7 / 32, 11 / 32], [19 / 32, 23 / 32]], [[7 / 32, 11 / 32], [19 / 32, 23 / 32]]]
   \<and> sfs_from_phi_3D_trapz 1 1 1 [0, 1 / 2, 1] [0, 1] [0, 1 / 4, 1]
        [[[1, 2, 3], [4, 5, 6]], [[1, 2, 3], [4, 5, 6]], [[1, 2, 3], [4, 5, 6]]]
      = Inr [[[7 / 32, 11 / 32], [19 / 32, 23 / 32]], [[7 / 32, 11 / 32], [19 / 32, 23 / 32]]]"
proof -
  have a: "trapz [4, 2, 6] [0, 1 / 2, 1] = Inr (7 / 2)" by code_simp
  have b: "sfs_from_phi_3D_trapz 1 1 1 [0, 1 / 2, 1] [0, 1] [0, 1 / 4, 1]
        [[[1, 2, 3], [4, 5, 6]], [[1, 2, 3], [4, 5, 6]], [[1, 2, 3], [4, 5, 6]]]
      = Inr [[[7 / 32, 11 / 32], [19 / 32, 23 / 32]], [[7 / 32, 11 / 32], [19 / 32, 23 / 32]]]"
    by code_simp
  from a b
    explicit_trapezoid_is_trapz [of "[0, 1 / 2, 1]" "[4, 2, 6]" 1 1 1 "[0, 1]" "[0, 1 / 4, 1]"
      "[[[1, 2, 3], [4, 5, 6]], [[1, 2, 3], [4, 5, 6]], [[1, 2, 3], [4, 5, 6]]]"]
  show ?thesis by simp
qed

subsection \<open>The sum over the bins\<close>

lemma trapz_same_length:
  assumes "length y = length x"
  shows "trapz y x = Inr (\<Sum>j<length x - 1. (x ! (j + 1) - x ! j) * (y ! (j + 1) + y ! j) / 2)"
proof -
  let ?w = "map2 (+) (tl y) (butlast y)"
  have l: "length (diff x) = length ?w" using assms by (simp add: length_diff)
  have "sum_list (map (\<lambda>v. v / 2) (map2 (*) (diff x) ?w))
      = (\<Sum>j<length x - 1. (x ! (j + 1) - x ! j) * (y ! (j + 1) + y ! j) / 2)"
    using assms
    by (simp add: sum_list_sum_nth atLeast0LessThan diff_def nth_tl nth_butlast)
  then show ?thesis
    by (simp add: trapz_def trapz_dx_def bcast_same_length [OF l] bindE_def)
qed

lemma mapE_Inr: "(\<And>x. x \<in> set xs \<Longrightarrow> f x = Inr (g x)) \<Longrightarrow> mapE f xs = Inr (map g xs)"
  by (induction xs) (simp_all add: bindE_def)

lemma binomial_partition:
  "(\<Sum>ii\<le>n. comb n ii * x ^ ii * (1 - x) ^ (n - ii)) = 1"
  using binomial_ring [of x "1 - x" n] by (simp add: comb_def)

lemma factor_phi_partition:
  assumes "j < length xx" and "length phi = length xx"
  shows "(\<Sum>ii\<le>n. map2 (*) (factor n ii xx) phi ! j) = phi ! j"
proof -
  have "(\<Sum>ii\<le>n. map2 (*) (factor n ii xx) phi ! j)
      = (\<Sum>ii\<le>n. comb n ii * (xx ! j) ^ ii * (1 - xx ! j) ^ (n - ii)) * phi ! j"
    using assms by (simp add: factor_def sum_distrib_right)
  then show ?thesis by (simp add: binomial_partition)
qed

lemma sfs_from_phi_1D_total:
  assumes "length phi = length xx"
  shows "\<exists>sfs. sfs_from_phi_1D n xx phi = Inr sfs \<and> length sfs = n + 1
           \<and> trapz phi xx = Inr (sum_list sfs)"
proof -
  let ?y = "\<lambda>ii. map2 (*) (factor n ii xx) phi"
  let ?T = "\<lambda>y. \<Sum>j<length xx - 1. (xx ! (j + 1) - xx ! j) * (y ! (j + 1) + y ! j) / 2"
  let ?sfs = "map (\<lambda>ii. ?T (?y ii)) [0..<n + 1]"
  have ly: "length (?y ii) = length xx" for ii
    using assms by (simp add: factor_def)
  have lf: "length (factor n ii xx) = length phi" for ii
    using assms by (simp add: factor_def)
  have run: "sfs_from_phi_1D n xx phi = Inr ?sfs"
    unfolding sfs_from_phi_1D_def Let_def
    by (rule mapE_Inr) (simp add: bcast_same_length [OF lf] bindE_def trapz_same_length [OF ly])
  have "sum_list ?sfs = (\<Sum>ii\<le>n. ?T (?y ii))"
    by (simp add: sum_list_sum_nth atLeast0LessThan lessThan_Suc_atMost del: upt_Suc)
  also have "\<dots> = (\<Sum>j<length xx - 1. \<Sum>ii\<le>n.
                     (xx ! (j + 1) - xx ! j) * (?y ii ! (j + 1) + ?y ii ! j) / 2)"
    by (rule sum.swap)
  also have "\<dots> = (\<Sum>j<length xx - 1.
                     (xx ! (j + 1) - xx ! j) * ((\<Sum>ii\<le>n. ?y ii ! (j + 1)) + (\<Sum>ii\<le>n. ?y ii ! j)) / 2)"
    by (simp only: sum_divide_distrib [symmetric] sum_distrib_left [symmetric] sum.distrib)
  also have "\<dots> = ?T phi"
    by (rule sum.cong) (simp_all add: factor_phi_partition [OF _ assms])
  finally have "sum_list ?sfs = ?T phi" .
  then have "trapz phi xx = Inr (sum_list ?sfs)"
    by (simp add: trapz_same_length [OF assms])
  with run show ?thesis by (intro exI [of _ ?sfs]) simp
qed

text \<open>
  Claim C3. For every \<open>n\<close>, every grid \<open>xx\<close> of at least two points and the
  density that is 1 at every grid point, \<^verbatim>\<open>sfs_from_phi_1D\<close> returns \<open>n + 1\<close>
  entries whose sum is exactly the trapezoid-rule integral of the density over the
  grid.
\<close>

theorem sfs_from_phi_1D_uniform_total:
  assumes "2 \<le> length xx"
  shows "\<exists>sfs. sfs_from_phi_1D n xx (replicate (length xx) 1) = Inr sfs
           \<and> length sfs = n + 1
           \<and> trapz (replicate (length xx) 1) xx = Inr (sum_list sfs)"
  by (rule sfs_from_phi_1D_total) simp

theorem sfs_from_phi_1D_uniform_total_witness:
  "sfs_from_phi_1D 2 [0, 1 / 2, 1] [1, 1, 1] = Inr [3 / 8, 1 / 4, 3 / 8]
   \<and> trapz [1, 1, 1] [0, 1 / 2, 1] = Inr (sum_list [3 / 8, 1 / 4, 3 / 8])"
proof -
  have l: "2 \<le> length [0, 1 / 2, 1 :: real]" by simp
  have r: "replicate (length [0, 1 / 2, 1 :: real]) (1 :: real) = [1, 1, 1]"
    by (simp add: numeral_3_eq_3)
  from sfs_from_phi_1D_uniform_total [OF l, of 2]
  obtain sfs where a: "sfs_from_phi_1D 2 [0, 1 / 2, 1] [1, 1, 1] = Inr sfs"
    and b: "trapz [1, 1, 1] [0, 1 / 2, 1] = Inr (sum_list sfs)"
    unfolding r by blast
  have c: "sfs_from_phi_1D 2 [0, 1 / 2, 1] [1, 1, 1] = Inr [3 / 8, 1 / 4, 3 / 8]"
    by code_simp
  from a b c show ?thesis by simp
qed

end
